theory Spec2Isabelle
  imports Complex_Main "HOL-Library.Multiset"
begin

section \<open>Python values, exceptions and the outside world\<close>

text \<open>
  Python floats are modelled as real numbers and Python ints as integers. Exceptions are
  values: a computation that can raise returns \<open>py_error + 'a\<close>, with \<open>Inl\<close> the exception.
  The values of \<open>py_error\<close> are exceptions derived from \<open>Exception\<close>, the ones a handler
  \<open>except Exception\<close> catches.
\<close>

datatype py_error =
    ZeroDivisionError
  | OverflowError
  | TypeError string
  | AttributeError string
  | TweepyException string
  | Exception string

text \<open>Python's \<open>str(e)\<close>.\<close>

fun str_error :: "py_error \<Rightarrow> string" where
  "str_error ZeroDivisionError = ''float division by zero''"
| "str_error OverflowError = ''int too large to convert to float''"
| "str_error (TypeError m) = m"
| "str_error (AttributeError m) = m"
| "str_error (TweepyException m) = m"
| "str_error (Exception m) = m"

text \<open>
  \<open>asyncio.CancelledError\<close> is a \<open>BaseException\<close> and no \<open>Exception\<close>: it passes through
  \<open>except Exception\<close> and fails the test \<open>isinstance(e, Exception)\<close>. Awaiting a call
  either returns or is cancelled. Cancellation is followed where \<open>asyncio.gather\<close> hands it
  back as a result: at the call of the completion API.
\<close>

datatype 'a awaited = Returned 'a | CancelledError

text \<open>
  The outcome of one call of the completion API: the content of the message, an
  exception, or a cancellation.
\<close>

datatype completion = Content string | Raises py_error | Cancelled

text \<open>Python's \<open>a / b\<close> on floats: raises on a zero divisor.\<close>

definition truediv :: "real \<Rightarrow> real \<Rightarrow> py_error + real" where
  "truediv a b = (if b = 0 then Inl ZeroDivisionError else Inr (a / b))"

text \<open>Python's \<open>d.get(k, default)\<close>.\<close>

definition dict_get :: "('k \<rightharpoonup> 'v) \<Rightarrow> 'k \<Rightarrow> 'v \<Rightarrow> 'v" where
  "dict_get d k dflt = (case d k of None \<Rightarrow> dflt | Some v \<Rightarrow> v)"

text \<open>Python's \<open>str(n)\<close> for an int.\<close>

fun str_nat :: "nat \<Rightarrow> string" where
  "str_nat n = (if n < 10 then [''0123456789'' ! n]
                else str_nat (n div 10) @ [''0123456789'' ! (n mod 10)])"

declare str_nat.simps [simp del]

definition str_int :: "int \<Rightarrow> string" where
  "str_int i = (if i < 0 then CHR ''-'' # str_nat (nat (- i)) else str_nat (nat i))"

subsection \<open>Data classes of \<open>trend_graph/state.py\<close>\<close>

datatype post_status = RAW | SCORED | GENERATED | POSTED | METRICS_COLLECTED | FAILED

record raw_post =
  reddit_id :: string
  title :: string
  url :: string
  upvotes :: int
  created_utc :: real
  subreddit :: string
  permalink :: string
  num_comments :: int
  upvote_ratio :: real
  scraped_at :: real

record scored_post =
  raw_post :: raw_post
  score :: real
  meets_threshold :: bool
  scored_at :: real

record generated_post =
  scored_post :: scored_post
  tweet_text :: string
  generated_at :: real

record post_result =
  generated_post :: generated_post
  tweet_url :: "string option"
  tweet_id :: "string option"
  posted_at :: "real option"
  likes :: "int option"
  retweets :: "int option"
  metrics_collected_at :: "real option"
  status :: post_status
  error_message :: "string option"

subsection \<open>The world a run executes in\<close>

text \<open>
  Everything the code reads from outside is a field of the world, and every call to a
  collaborator is counted there:
  \<^item> \<open>clock w n\<close> is the value of the \<open>n\<close>-th \<open>datetime.utcnow().timestamp()\<close> of the process,
    \<open>reads w\<close> the number of readings taken so far;
  \<^item> \<open>app_min_score\<close> is \<open>get_app_config().min_score\<close>;
  \<^item> \<open>scrape_all\<close> is the list \<open>scraper.scrape_all_subreddits\<close> returns (it catches the
    exceptions of every subreddit and of both scraping methods, and always returns a list);
  \<^item> \<open>completions w n\<close> is the outcome of the \<open>n\<close>-th \<open>client.chat.completions.create\<close>;
  \<^item> \<open>twitter_client\<close> says whether \<open>poster.client\<close> was initialised, and \<open>create_tweet w n\<close> is
    the outcome of the \<open>n\<close>-th \<open>client.create_tweet\<close>: an exception, or a response whose
    \<open>data\<close> holds the tweet id or is empty;
  \<^item> \<open>database w n\<close> is the outcome of the \<open>n\<close>-th call into \<open>trend_graph/database.py\<close>:
    \<open>None\<close> when it returns, the exception otherwise;
  \<^item> \<open>uuid_hex\<close> is \<open>uuid.uuid4().hex\<close>.
\<close>

record world =
  clock :: "nat \<Rightarrow> real"
  reads :: nat
  app_min_score :: real
  scrape_all :: "raw_post list"
  completions :: "nat \<Rightarrow> completion"
  completion_calls :: nat
  twitter_client :: bool
  create_tweet :: "nat \<Rightarrow> py_error + string option"
  create_tweet_calls :: nat
  database :: "nat \<Rightarrow> py_error option"
  database_calls :: nat
  uuid_hex :: string

definition utcnow :: "world \<Rightarrow> real \<times> world" where
  "utcnow w = (clock w (reads w), w\<lparr>reads := Suc (reads w)\<rparr>)"

section \<open>Virality scoring (\<open>trend_graph/nodes/score.py\<close>)\<close>

text \<open>\<open>RawPost.age_minutes\<close>: a property that reads the wall clock at every access.\<close>

definition age_minutes :: "world \<Rightarrow> raw_post \<Rightarrow> real \<times> world" where
  "age_minutes w post = (case utcnow w of (now, w') \<Rightarrow> ((now - created_utc post) / 60, w'))"

definition subreddit_multipliers :: "string \<rightharpoonup> real" where
  "subreddit_multipliers =
     [''interestingasfuck'' \<mapsto> 1,
      ''technology'' \<mapsto> 11 / 10,
      ''pics'' \<mapsto> 9 / 10,
      ''programming'' \<mapsto> 12 / 10,
      ''MachineLearning'' \<mapsto> 13 / 10,
      ''artificial'' \<mapsto> 12 / 10]"

text \<open>Factor 1 of \<open>_apply_scoring_factors\<close>: comment engagement ratio.\<close>

definition comment_engagement :: "raw_post \<Rightarrow> real \<Rightarrow> py_error + real" where
  "comment_engagement post sc =
     (if upvotes post > 0 then
        (case truediv (real_of_int (num_comments post)) (real_of_int (upvotes post)) of
           Inl e \<Rightarrow> Inl e
         | Inr comment_ratio \<Rightarrow>
             Inr (if comment_ratio > 1 / 10 then sc * (11 / 10) else sc))
      else Inr sc)"

text \<open>Factor 2: upvote ratio quality.\<close>

definition upvote_ratio_quality :: "raw_post \<Rightarrow> real \<Rightarrow> real" where
  "upvote_ratio_quality post sc =
     (if upvote_ratio post > 9 / 10 then sc * (105 / 100)
      else if upvote_ratio post < 7 / 10 then sc * (95 / 100)
      else sc)"

text \<open>Factor 3: subreddit-specific adjustment.\<close>

definition subreddit_adjustment :: "raw_post \<Rightarrow> real \<Rightarrow> real" where
  "subreddit_adjustment post sc =
     (let multiplier = dict_get subreddit_multipliers (subreddit post) 1
      in sc * multiplier)"

text \<open>Factor 4: time-based adjustment, from the age in minutes just read.\<close>

definition time_adjustment :: "real \<Rightarrow> real \<Rightarrow> real" where
  "time_adjustment age_mins sc =
     (let age_hours = age_mins / 60
      in if age_hours > 12 then
           (let age_penalty = max (1 / 2) (1 - (age_hours - 12) / 24)
            in sc * age_penalty)
         else sc)"

text \<open>\<open>ViralityScorer._apply_scoring_factors\<close>.\<close>

definition apply_scoring_factors :: "world \<Rightarrow> raw_post \<Rightarrow> real \<Rightarrow> (py_error + real) \<times> world" where
  "apply_scoring_factors w post base_score =
     (case comment_engagement post base_score of
        Inl e \<Rightarrow> (Inl e, w)
      | Inr score1 \<Rightarrow>
          (let score2 = upvote_ratio_quality post score1;
               score3 = subreddit_adjustment post score2
           in case age_minutes w post of
                (age_mins, w') \<Rightarrow> (Inr (time_adjustment age_mins score3), w')))"

text \<open>\<open>ViralityScorer.calculate_virality_score\<close>.\<close>

definition calculate_virality_score :: "world \<Rightarrow> raw_post \<Rightarrow> (py_error + real) \<times> world" where
  "calculate_virality_score w post =
     (case age_minutes w post of
        (age_mins0, w1) \<Rightarrow>
          (let age_mins = (if age_mins0 < 1 then 1 else age_mins0)
           in case truediv (real_of_int (upvotes post)) age_mins of
                Inl e \<Rightarrow> (Inl e, w1)
              | Inr base_score \<Rightarrow> apply_scoring_factors w1 post base_score))"

text \<open>
  \<open>ViralityScorer.score_post\<close>. The threshold is the scorer's \<open>app_config.min_score\<close>; the
  \<open>ScoredPost\<close> constructor reads the clock for \<open>scored_at\<close>.
\<close>

definition score_post :: "world \<Rightarrow> raw_post \<Rightarrow> (py_error + scored_post) \<times> world" where
  "score_post w post =
     (case calculate_virality_score w post of
        (Inl e, w1) \<Rightarrow> (Inl e, w1)
      | (Inr sc, w1) \<Rightarrow>
          (case utcnow w1 of
             (now, w2) \<Rightarrow>
               (Inr \<lparr>raw_post = post, score = sc,
                     meets_threshold = (sc \<ge> app_min_score w1), scored_at = now\<rparr>, w2)))"

text \<open>
  The loop of \<open>ViralityScorer.score_posts\<close>: a post whose scoring raises is logged and
  skipped.
\<close>

fun score_loop :: "world \<Rightarrow> raw_post list \<Rightarrow> scored_post list \<Rightarrow> scored_post list \<times> world" where
  "score_loop w [] scored = (scored, w)"
| "score_loop w (post # posts) scored =
     (case score_post w post of
        (Inl e, w') \<Rightarrow> score_loop w' posts scored
      | (Inr sp, w') \<Rightarrow> score_loop w' posts (scored @ [sp]))"

text \<open>
  \<open>list.sort(key=lambda p: p.score, reverse=True)\<close>: a stable sort into descending key
  order, that is a stable ascending sort on the negated key.
\<close>

definition sort_by_score_reverse :: "scored_post list \<Rightarrow> scored_post list" where
  "sort_by_score_reverse ps = sort_key (\<lambda>p. - score p) ps"

text \<open>\<open>ViralityScorer.score_posts\<close>.\<close>

definition score_posts :: "world \<Rightarrow> raw_post list \<Rightarrow> scored_post list \<times> world" where
  "score_posts w posts =
     (case score_loop w posts [] of (scored, w') \<Rightarrow> (sort_by_score_reverse scored, w'))"

text \<open>\<open>ViralityScorer.get_posts_above_threshold\<close>.\<close>

definition get_posts_above_threshold :: "scored_post list \<Rightarrow> scored_post list" where
  "get_posts_above_threshold sps = filter meets_threshold sps"

subsection \<open>The scorer on the range of the doubles\<close>













section \<open>Content generation (\<open>trend_graph/nodes/generate.py\<close>)\<close>

text \<open>
  Python's \<open>str.strip()\<close>. A text is modelled as its list of characters, with the
  characters up to \<open>0xFF\<close>; these are the white space characters among them.
\<close>

definition is_space :: "char \<Rightarrow> bool" where
  "is_space c = (c \<in> set [CHR '' '', CHR 0x09, CHR 0x0A, CHR 0x0B, CHR 0x0C, CHR 0x0D,
                           CHR 0x1C, CHR 0x1D, CHR 0x1E, CHR 0x1F, CHR 0x85, CHR 0xA0])"

definition strip :: "string \<Rightarrow> string" where
  "strip s = rev (dropWhile is_space (rev (dropWhile is_space s)))"

text \<open>The length validation of \<open>generate_tweet\<close>.\<close>

definition truncate_tweet :: "string \<Rightarrow> string" where
  "truncate_tweet t = (if length t > 280 then take 277 t @ ''...'' else t)"

text \<open>
  The \<open>try\<close> block of \<open>generate_tweet\<close> on the outcome of the API call: the content is
  stripped and validated; an exception is logged and turned into \<open>None\<close> by the handler
  \<open>except Exception\<close>; a cancellation passes through that handler.
\<close>

definition tweet_of_completion :: "completion \<Rightarrow> string option awaited" where
  "tweet_of_completion response =
     (case response of
        Content content \<Rightarrow> Returned (Some (truncate_tweet (strip content)))
      | Raises e \<Rightarrow> Returned None
      | Cancelled \<Rightarrow> CancelledError)"

text \<open>
  \<open>ContentGenerator.generate_tweet\<close>: one call to the completion API. The prompt is built
  from the post by string formatting and has no further effect.
\<close>

definition generate_tweet :: "world \<Rightarrow> scored_post \<Rightarrow> string option awaited \<times> world" where
  "generate_tweet w post =
     (tweet_of_completion (completions w (completion_calls w)),
      w\<lparr>completion_calls := Suc (completion_calls w)\<rparr>)"

text \<open>\<open>generate_with_semaphore\<close>: awaits the task and pairs its text with the post.\<close>

definition generate_with_semaphore ::
  "world \<Rightarrow> scored_post \<Rightarrow> (scored_post \<times> string option) awaited \<times> world" where
  "generate_with_semaphore w post =
     (case generate_tweet w post of
        (Returned tx, w') \<Rightarrow> (Returned (post, tx), w')
      | (CancelledError, w') \<Rightarrow> (CancelledError, w'))"

text \<open>
  \<open>asyncio.gather(..., return_exceptions=True)\<close>: one result per post, in the order of the
  posts; the result of a cancelled task is the \<open>CancelledError\<close> itself. The semaphore
  bounds how many calls are in flight and does not change the results.
\<close>

fun gather_generate ::
  "world \<Rightarrow> scored_post list \<Rightarrow> (scored_post \<times> string option) awaited list \<times> world" where
  "gather_generate w [] = ([], w)"
| "gather_generate w (post # posts) =
     (case generate_with_semaphore w post of
        (r, w1) \<Rightarrow>
          (case gather_generate w1 posts of
             (rest, w2) \<Rightarrow> (r # rest, w2)))"

text \<open>
  The result loop of \<open>generate_tweets_batch\<close>. A result that is an \<open>Exception\<close> is logged
  and skipped (\<open>generate_tweet\<close> leaves none). A \<open>CancelledError\<close> is no \<open>Exception\<close>, so
  the loop goes on to unpack it as a pair, which raises \<open>TypeError\<close>. \<open>if tweet_text:\<close>
  holds for a text that is neither \<open>None\<close> nor empty. The \<open>GeneratedPost\<close> constructor
  reads the clock for \<open>generated_at\<close>.
\<close>

fun process_results ::
  "world \<Rightarrow> (scored_post \<times> string option) awaited list \<Rightarrow> generated_post list
     \<Rightarrow> (py_error + generated_post list) \<times> world" where
  "process_results w [] generated = (Inr generated, w)"
| "process_results w (CancelledError # rest) generated =
     (Inl (TypeError ''cannot unpack non-iterable CancelledError object''), w)"
| "process_results w (Returned (post, tx) # rest) generated =
     (case tx of
        None \<Rightarrow> process_results w rest generated
      | Some t \<Rightarrow>
          if t = [] then process_results w rest generated
          else
            (case utcnow w of
               (now, w') \<Rightarrow>
                 process_results w' rest
                   (generated @ [\<lparr>scored_post = post, tweet_text = t, generated_at = now\<rparr>])))"

text \<open>\<open>ContentGenerator.generate_tweets_batch\<close>.\<close>

definition generate_tweets_batch ::
  "world \<Rightarrow> scored_post list \<Rightarrow> (py_error + generated_post list) \<times> world" where
  "generate_tweets_batch w posts =
     (case gather_generate w posts of (rs, w1) \<Rightarrow> process_results w1 rs [])"

section \<open>Publishing (\<open>trend_graph/nodes/post.py\<close>)\<close>

text \<open>
  A call into \<open>database.py\<close> whose exception the caller logs and drops: only the call is
  counted.
\<close>

definition database_call_swallowed :: "world \<Rightarrow> world" where
  "database_call_swallowed w = w\<lparr>database_calls := Suc (database_calls w)\<rparr>"

text \<open>A call into \<open>database.py\<close> whose exception propagates.\<close>

definition database_call :: "world \<Rightarrow> py_error option \<times> world" where
  "database_call w = (database w (database_calls w), w\<lparr>database_calls := Suc (database_calls w)\<rparr>)"

text \<open>The \<open>PostResult\<close> constructor with its defaults, \<open>mark_posted\<close> and \<open>mark_failed\<close>.\<close>

definition PostResult :: "generated_post \<Rightarrow> post_result" where
  "PostResult gp =
     \<lparr>generated_post = gp, tweet_url = None, tweet_id = None, posted_at = None, likes = None,
      retweets = None, metrics_collected_at = None, status = GENERATED, error_message = None\<rparr>"

definition mark_posted :: "world \<Rightarrow> post_result \<Rightarrow> string \<Rightarrow> string \<Rightarrow> post_result \<times> world" where
  "mark_posted w r turl tid =
     (case utcnow w of
        (now, w') \<Rightarrow>
          (r\<lparr>tweet_url := Some turl, tweet_id := Some tid, posted_at := Some now, status := POSTED\<rparr>,
           w'))"

definition mark_failed :: "post_result \<Rightarrow> string \<Rightarrow> post_result" where
  "mark_failed r msg = r\<lparr>post_result.error_message := Some msg, status := FAILED\<rparr>"

text \<open>\<open>TwitterPoster.post_tweet\<close>.\<close>

definition post_tweet :: "world \<Rightarrow> generated_post \<Rightarrow> post_result \<times> world" where
  "post_tweet w gp =
     (let result = PostResult gp
      in if \<not> twitter_client w then (mark_failed result ''Twitter client not initialized'', w)
         else if length (tweet_text gp) > 280 then
           (mark_failed result
              (''Tweet too long: '' @ str_nat (length (tweet_text gp)) @ '' characters''), w)
         else
           (let w1 = w\<lparr>create_tweet_calls := Suc (create_tweet_calls w)\<rparr>
            in case create_tweet w (create_tweet_calls w) of
                 Inr (Some tid) \<Rightarrow>
                   (case mark_posted w1 result (''https://twitter.com/user/status/'' @ tid) tid of
                      (r, w2) \<Rightarrow> (r, database_call_swallowed w2))
               | Inr None \<Rightarrow> (mark_failed result ''Twitter API returned no data'', w1)
               | Inl (TweepyException m) \<Rightarrow>
                   (mark_failed result (''Twitter API error: '' @ m), database_call_swallowed w1)
               | Inl e \<Rightarrow>
                   (mark_failed result (''Unexpected error posting tweet: '' @ str_error e),
                    database_call_swallowed w1)))"

text \<open>
  \<open>TwitterPoster.post_tweets_batch\<close>: the posts one after the other. \<open>post_tweet\<close> catches
  its own exceptions; the pause between two tweets changes nothing in the state.
\<close>

fun post_tweets_batch :: "world \<Rightarrow> generated_post list \<Rightarrow> post_result list \<times> world" where
  "post_tweets_batch w [] = ([], w)"
| "post_tweets_batch w (gp # gps) =
     (case post_tweet w gp of
        (result, w1) \<Rightarrow>
          (case post_tweets_batch w1 gps of
             (rest, w2) \<Rightarrow> (result # rest, w2)))"

section \<open>The run state (\<open>TrendState\<close> of \<open>trend_graph/state.py\<close>)\<close>

text \<open>
  \<open>completed_at_writes\<close> is not a field of the source: it counts the assignments to
  \<open>completed_at\<close>, so that "assigned once" can be stated.
\<close>

record trend_state =
  raw_posts :: "raw_post list"
  scored_posts :: "scored_post list"
  generated_posts :: "generated_post list"
  results :: "post_result list"
  workflow_id :: string
  started_at :: "real option"
  completed_at :: "real option"
  current_step :: string
  error_message :: "string option"
  min_score :: real
  subreddits :: "string list"
  total_scraped :: nat
  total_scored :: nat
  total_generated :: nat
  total_posted :: nat
  total_failed :: nat
  completed_at_writes :: nat

text \<open>\<open>TrendState()\<close> with the defaults of the data class.\<close>

definition TrendState :: trend_state where
  "TrendState =
     \<lparr>raw_posts = [], scored_posts = [], generated_posts = [], results = [],
      workflow_id = [], started_at = None, completed_at = None, current_step = [],
      error_message = None, min_score = 200,
      subreddits = [''interestingasfuck'', ''technology'', ''pics''],
      total_scraped = 0, total_scored = 0, total_generated = 0, total_posted = 0,
      total_failed = 0, completed_at_writes = 0\<rparr>"

definition start_workflow :: "world \<Rightarrow> trend_state \<Rightarrow> string \<Rightarrow> trend_state \<times> world" where
  "start_workflow w s wid =
     (case utcnow w of
        (now, w') \<Rightarrow>
          (s\<lparr>workflow_id := wid, started_at := Some now, current_step := ''starting'',
             trend_state.error_message := None\<rparr>, w'))"

definition complete_workflow :: "world \<Rightarrow> trend_state \<Rightarrow> trend_state \<times> world" where
  "complete_workflow w s =
     (case utcnow w of
        (now, w') \<Rightarrow>
          (s\<lparr>completed_at := Some now, completed_at_writes := Suc (completed_at_writes s),
             current_step := ''completed''\<rparr>, w'))"

definition fail_workflow :: "world \<Rightarrow> trend_state \<Rightarrow> string \<Rightarrow> trend_state \<times> world" where
  "fail_workflow w s msg =
     (case utcnow w of
        (now, w') \<Rightarrow>
          (s\<lparr>trend_state.error_message := Some msg, current_step := ''failed'',
             completed_at := Some now, completed_at_writes := Suc (completed_at_writes s)\<rparr>, w'))"

definition update_step :: "trend_state \<Rightarrow> string \<Rightarrow> trend_state" where
  "update_step s step_name = s\<lparr>current_step := step_name\<rparr>"

definition add_raw_posts :: "trend_state \<Rightarrow> raw_post list \<Rightarrow> trend_state" where
  "add_raw_posts s posts =
     s\<lparr>raw_posts := raw_posts s @ posts, total_scraped := total_scraped s + length posts\<rparr>"

definition add_scored_posts :: "trend_state \<Rightarrow> scored_post list \<Rightarrow> trend_state" where
  "add_scored_posts s posts =
     s\<lparr>scored_posts := scored_posts s @ posts, total_scored := total_scored s + length posts\<rparr>"

definition add_generated_posts :: "trend_state \<Rightarrow> generated_post list \<Rightarrow> trend_state" where
  "add_generated_posts s posts =
     s\<lparr>generated_posts := generated_posts s @ posts,
       total_generated := total_generated s + length posts\<rparr>"

text \<open>The counting loop of \<open>add_results\<close>.\<close>

fun count_results :: "trend_state \<Rightarrow> post_result list \<Rightarrow> trend_state" where
  "count_results s [] = s"
| "count_results s (r # rs) =
     count_results
       (if status r = POSTED then s\<lparr>total_posted := total_posted s + 1\<rparr>
        else if status r = FAILED then s\<lparr>total_failed := total_failed s + 1\<rparr>
        else s) rs"

definition add_results :: "trend_state \<Rightarrow> post_result list \<Rightarrow> trend_state" where
  "add_results s rs = count_results (s\<lparr>results := results s @ rs\<rparr>) rs"

text \<open>\<open>TrendState.get_posts_above_threshold\<close>.\<close>

definition state_posts_above_threshold :: "trend_state \<Rightarrow> scored_post list" where
  "state_posts_above_threshold s = filter meets_threshold (scored_posts s)"

text \<open>Python's truth value of an \<open>Optional[str]\<close>.\<close>

definition truthy :: "string option \<Rightarrow> bool" where
  "truthy t = (case t of None \<Rightarrow> False | Some m \<Rightarrow> m \<noteq> [])"

section \<open>The nodes of the workflow\<close>

text \<open>
  Each node sets the step and runs its body under \<open>try\<close>; an exception that reaches the
  node's handler fails the workflow. With the collaborators as modelled, this happens in
  the generation node only, when the batch raises: the scraper returns a list in every
  case, scoring and posting catch the exceptions of their calls themselves, and the
  database calls of the nodes are wrapped in their own handlers.
\<close>

text \<open>\<open>scrape_sources_node\<close> (\<open>trend_graph/nodes/scrape.py\<close>).\<close>

definition scrape_sources_node :: "world \<Rightarrow> trend_state \<Rightarrow> trend_state \<times> world" where
  "scrape_sources_node w s0 =
     (let s = update_step s0 ''scraping'';
          posts = scrape_all w
      in (add_raw_posts s posts, w))"

text \<open>A loop of database calls, each under its own \<open>try\<close>.\<close>

fun database_calls_swallowed :: "world \<Rightarrow> 'a list \<Rightarrow> world" where
  "database_calls_swallowed w [] = w"
| "database_calls_swallowed w (x # xs) = database_calls_swallowed (database_call_swallowed w) xs"

text \<open>\<open>score_virality_node\<close>; the scoring statistics are only logged.\<close>

definition score_virality_node :: "world \<Rightarrow> trend_state \<Rightarrow> trend_state \<times> world" where
  "score_virality_node w s0 =
     (let s = update_step s0 ''scoring''
      in if raw_posts s = [] then (s, w)
         else
           (case score_posts w (raw_posts s) of
              (scored, w1) \<Rightarrow>
                (add_scored_posts s scored, database_calls_swallowed w1 scored)))"

text \<open>\<open>generate_content_node\<close>.\<close>

definition generate_content_node :: "world \<Rightarrow> trend_state \<Rightarrow> trend_state \<times> world" where
  "generate_content_node w s0 =
     (let s = update_step s0 ''generating'';
          posts_to_generate = state_posts_above_threshold s
      in if posts_to_generate = [] then (s, w)
         else
           (case generate_tweets_batch w posts_to_generate of
              (Inr generated, w1) \<Rightarrow>
                (add_generated_posts s generated, database_calls_swallowed w1 generated)
            | (Inl e, w1) \<Rightarrow>
                fail_workflow w1 s (''Error in generate content node: '' @ str_error e)))"

text \<open>\<open>post_content_node\<close>.\<close>

definition post_content_node :: "world \<Rightarrow> trend_state \<Rightarrow> trend_state \<times> world" where
  "post_content_node w s0 =
     (let s = update_step s0 ''posting''
      in if generated_posts s = [] then (s, w)
         else
           (case post_tweets_batch w (generated_posts s) of
              (rs, w1) \<Rightarrow> (add_results s rs, w1)))"

section \<open>The workflow graph (\<open>trend_graph/graph.py\<close>)\<close>

definition END :: string where
  "END = ''__end__''"

definition should_continue_to_scoring :: "trend_state \<Rightarrow> string" where
  "should_continue_to_scoring s =
     (if truthy (trend_state.error_message s) then END
      else if raw_posts s = [] then END
      else ''score_virality'')"

definition should_continue_to_generation :: "trend_state \<Rightarrow> string" where
  "should_continue_to_generation s =
     (if truthy (trend_state.error_message s) then END
      else if state_posts_above_threshold s = [] then END
      else ''generate_content'')"

definition should_continue_to_posting :: "trend_state \<Rightarrow> string" where
  "should_continue_to_posting s =
     (if truthy (trend_state.error_message s) then END
      else if generated_posts s = [] then END
      else ''post_content'')"

text \<open>
  The nodes of the compiled graph of \<open>_build_graph\<close> in the order of a run: entry point
  \<open>scrape_sources\<close>, a conditional edge after each of the first three nodes, and an edge
  from \<open>post_content\<close> to the end.
\<close>

definition run_graph :: "world \<Rightarrow> trend_state \<Rightarrow> trend_state \<times> world" where
  "run_graph w s =
     (case scrape_sources_node w s of
        (s1, w1) \<Rightarrow>
          if should_continue_to_scoring s1 = END then (s1, w1)
          else
            (case score_virality_node w1 s1 of
               (s2, w2) \<Rightarrow>
                 if should_continue_to_generation s2 = END then (s2, w2)
                 else
                   (case generate_content_node w2 s2 of
                      (s3, w3) \<Rightarrow>
                        if should_continue_to_posting s3 = END then (s3, w3)
                        else post_content_node w3 s3)))"

text \<open>
  \<open>graph.ainvoke(state)\<close> of the LangGraph library. The library copies the fields of the
  state it is given into its channels, hands each node a \<open>TrendState\<close> built from the
  channel values, and returns the final channel values as a dictionary, not as a
  \<open>TrendState\<close>. \<open>Dict d\<close> is the dictionary whose entries are the fields of \<open>d\<close>.
\<close>

datatype graph_output = Dict trend_state

definition ainvoke :: "world \<Rightarrow> trend_state \<Rightarrow> graph_output \<times> world" where
  "ainvoke w s = (case run_graph w s of (s', w') \<Rightarrow> (Dict s', w'))"

text \<open>
  An attribute of the object \<open>ainvoke\<close> has returned, read as a field of a \<open>TrendState\<close>:
  a dictionary has no such attribute.
\<close>

definition getattr :: "graph_output \<Rightarrow> string \<Rightarrow> py_error + trend_state" where
  "getattr obj attr =
     (case obj of Dict d \<Rightarrow> Inl (AttributeError (''dict object has no attribute '' @ attr)))"

text \<open>
  The state object of the caller after the graph has run. The nodes work on other
  \<open>TrendState\<close> objects, so the assignments they make to fields do not reach it; the four
  lists are the same list objects in all of them and are extended in place.
\<close>

definition state_after_graph :: "trend_state \<Rightarrow> graph_output \<Rightarrow> trend_state" where
  "state_after_graph state obj =
     (case obj of
        Dict d \<Rightarrow>
          state\<lparr>raw_posts := raw_posts d, scored_posts := scored_posts d,
                generated_posts := generated_posts d, results := results d\<rparr>)"

text \<open>
  The handler of \<open>run_workflow\<close>: the database is told, whatever that call does, and the
  state is failed.
\<close>

definition run_workflow_except :: "world \<Rightarrow> trend_state \<Rightarrow> py_error \<Rightarrow> trend_state \<times> world" where
  "run_workflow_except w s e =
     (let error_msg = ''Workflow '' @ workflow_id s @ '' failed: '' @ str_error e
      in fail_workflow (database_call_swallowed w) s error_msg)"

text \<open>
  The end of the \<open>try\<close> block of \<open>run_workflow\<close>, after the graph has returned. The
  arguments of \<open>update_workflow_stats\<close> are evaluated first, and the first of them is
  \<open>final_state.total_scraped\<close>. Were it there, the statistics would be written and the run
  marked failed or completed.
\<close>

definition run_workflow_finish ::
  "world \<Rightarrow> trend_state \<Rightarrow> graph_output \<Rightarrow> trend_state \<times> world" where
  "run_workflow_finish w state obj =
     (case getattr obj ''total_scraped'' of
        Inl e \<Rightarrow> run_workflow_except w state e
      | Inr final_state \<Rightarrow>
          (case database_call w of
             (Some e, w1) \<Rightarrow> run_workflow_except w1 state e
           | (None, w1) \<Rightarrow>
               if truthy (trend_state.error_message final_state) then
                 (case database_call w1 of
                    (Some e, w2) \<Rightarrow> run_workflow_except w2 state e
                  | (None, w2) \<Rightarrow>
                      fail_workflow w2 final_state (the (trend_state.error_message final_state)))
               else
                 (case database_call w1 of
                    (Some e, w2) \<Rightarrow> run_workflow_except w2 state e
                  | (None, w2) \<Rightarrow> complete_workflow w2 final_state)))"

text \<open>
  The beginning of \<open>TrendWorkflow.run_workflow\<close>: the workflow id, the fresh state and
  the overrides of the configuration.
\<close>

definition run_workflow_begin ::
  "world \<Rightarrow> real option \<Rightarrow> string list option \<Rightarrow> trend_state \<times> world" where
  "run_workflow_begin w min_score_arg subreddits_arg =
     (case utcnow w of
        (now, w0) \<Rightarrow>
          (let wid = ''trend-'' @ take 8 (uuid_hex w0) @ ''-'' @ str_int \<lfloor>now\<rfloor>
           in case start_workflow w0 TrendState wid of
                (s0, w1) \<Rightarrow>
                  (let s1 = (case min_score_arg of None \<Rightarrow> s0 | Some m \<Rightarrow> s0\<lparr>min_score := m\<rparr>);
                       s2 = (case subreddits_arg of None \<Rightarrow> s1 | Some l \<Rightarrow> s1\<lparr>subreddits := l\<rparr>)
                   in (s2, w1))))"

text \<open>
  The first two statements of the \<open>try\<close> block: the workflow record is created and the
  graph is run.
\<close>

definition run_workflow_graph ::
  "world \<Rightarrow> trend_state \<Rightarrow> (py_error + graph_output) \<times> world" where
  "run_workflow_graph w state =
     (case database_call w of
        (Some e, w1) \<Rightarrow> (Inl e, w1)
      | (None, w1) \<Rightarrow> (case ainvoke w1 state of (obj, w2) \<Rightarrow> (Inr obj, w2)))"

text \<open>\<open>TrendWorkflow.run_workflow\<close>.\<close>

definition run_workflow :: "world \<Rightarrow> real option \<Rightarrow> string list option \<Rightarrow> trend_state \<times> world" where
  "run_workflow w min_score_arg subreddits_arg =
     (case run_workflow_begin w min_score_arg subreddits_arg of
        (state, w1) \<Rightarrow>
          (case run_workflow_graph w1 state of
             (Inl e, w2) \<Rightarrow> run_workflow_except w2 state e
           | (Inr obj, w2) \<Rightarrow> run_workflow_finish w2 (state_after_graph state obj) obj))"

section \<open>The scheduler's job descriptors (\<open>backend/scheduler.py\<close>)\<close>

datatype job_func = run_workflow_job | collect_metrics_job | create_metrics_snapshot_job | cleanup_job

datatype trigger = IntervalTrigger nat nat | CronTrigger nat nat

text \<open>
  The arguments of \<open>scheduler.add_job\<close>; \<open>IntervalTrigger h m\<close> is an interval of \<open>h\<close>
  hours and \<open>m\<close> minutes, \<open>CronTrigger h m\<close> a daily time.
\<close>

record job =
  func :: job_func
  trigger :: trigger
  job_id :: string
  job_name :: string
  max_instances :: nat
  coalesce :: bool
  misfire_grace_time :: "nat option"
  next_run_time :: "real option"

text \<open>\<open>SchedulerManager._add_jobs\<close>, for the configured \<open>interval_minutes\<close>.\<close>

definition add_jobs :: "nat \<Rightarrow> job list" where
  "add_jobs interval_minutes =
     [\<lparr>func = run_workflow_job, trigger = IntervalTrigger 0 interval_minutes,
       job_id = ''workflow_job'', job_name = ''Trend Analysis Workflow'',
       max_instances = 1, coalesce = True, misfire_grace_time = Some 300,
       next_run_time = None\<rparr>,
      \<lparr>func = collect_metrics_job, trigger = IntervalTrigger 1 0,
       job_id = ''metrics_job'', job_name = ''Metrics Collection'',
       max_instances = 1, coalesce = True, misfire_grace_time = Some 600,
       next_run_time = None\<rparr>,
      \<lparr>func = create_metrics_snapshot_job, trigger = IntervalTrigger 6 0,
       job_id = ''snapshot_job'', job_name = ''Metrics Snapshot'',
       max_instances = 1, coalesce = True, misfire_grace_time = None,
       next_run_time = None\<rparr>,
      \<lparr>func = cleanup_job, trigger = CronTrigger 2 0,
       job_id = ''cleanup_job'', job_name = ''Database Cleanup'',
       max_instances = 1, coalesce = True, misfire_grace_time = None,
       next_run_time = None\<rparr>]"

text \<open>
  \<open>SchedulerManager.run_job_now\<close> on the job store: the job found under the id gets the
  current time as its next run time; no job function is called. The result is the
  \<open>success\<close> flag of the returned dictionary.
\<close>

fun modify_next_run_time :: "job list \<Rightarrow> string \<Rightarrow> real \<Rightarrow> job list" where
  "modify_next_run_time [] jid now = []"
| "modify_next_run_time (j # js) jid now =
     (if job_id j = jid then j\<lparr>next_run_time := Some now\<rparr> # js
      else j # modify_next_run_time js jid now)"

definition run_job_now :: "job list option \<Rightarrow> string \<Rightarrow> real \<Rightarrow> py_error + (bool \<times> job list)" where
  "run_job_now scheduler jid now =
     (case scheduler of
        None \<Rightarrow> Inl (Exception ''Scheduler is not running'')
      | Some jobs \<Rightarrow>
          if jid \<in> job_id ` set jobs then Inr (True, modify_next_run_time jobs jid now)
          else Inr (False, jobs))"

section \<open>Example inputs\<close>

text \<open>
  A world whose clock stands at \<open>now\<close>, where the scraper finds nothing, every API answers
  with nothing and every database call returns.
\<close>

definition example_world :: "real \<Rightarrow> world" where
  "example_world now =
     \<lparr>clock = (\<lambda>n. now), reads = 0, app_min_score = 200, scrape_all = [],
      completions = (\<lambda>n. Content []), completion_calls = 0, twitter_client = True,
      create_tweet = (\<lambda>n. Inr None), create_tweet_calls = 0,
      database = (\<lambda>n. None), database_calls = 0,
      uuid_hex = ''0123456789abcdef0123456789abcdef''\<rparr>"

text \<open>
  A post of r/programming (multiplier 1.2) created at time 0 with 1000 upvotes, upvote
  ratio 0.95 and \<open>c\<close> comments.
\<close>

definition example_post :: "int \<Rightarrow> raw_post" where
  "example_post c =
     \<lparr>reddit_id = ''t3_example'', title = ''Example'', url = ''https://example.com'',
      upvotes = 1000, created_utc = 0, subreddit = ''programming'',
      permalink = ''https://reddit.com/r/programming/example'', num_comments = c,
      upvote_ratio = 95 / 100, scraped_at = 3600\<rparr>"

definition example_posts :: "raw_post list" where
  "example_posts =
     [(example_post 100)\<lparr>reddit_id := ''t3_low'', upvotes := 60\<rparr>,
      (example_post 100)\<lparr>reddit_id := ''t3_high'', upvotes := 6000\<rparr>,
      (example_post 100)\<lparr>reddit_id := ''t3_mid'', upvotes := 600\<rparr>]"

text \<open>A scored post above the threshold, and a generated post, for a Reddit id.\<close>

definition example_scored :: "string \<Rightarrow> real \<Rightarrow> scored_post" where
  "example_scored rid sc =
     \<lparr>raw_post = (example_post 101)\<lparr>reddit_id := rid\<rparr>, score = sc,
      meets_threshold = True, scored_at = 3600\<rparr>"

definition example_generated :: "string \<Rightarrow> generated_post" where
  "example_generated rid =
     \<lparr>scored_post = example_scored rid 300, tweet_text = ''A tweet'', generated_at = 3600\<rparr>"

text \<open>
  Two posts to generate for, in a world where the first completion call raises an
  exception, and in a world where it is cancelled; every later call returns a text with
  surrounding blanks.
\<close>

definition generate_posts :: "scored_post list" where
  "generate_posts = [example_scored ''t3_a'' 300, example_scored ''t3_b'' 250]"

definition generate_world :: world where
  "generate_world =
     (example_world 3600)
       \<lparr>completions := (\<lambda>n. if n = 0 then Raises (Exception ''rate limit'')
                              else Content '' A tweet '')\<rparr>"



text \<open>
  Three generated posts to publish, in a world where the second call to \<open>create_tweet\<close>
  raises and the others return a tweet id.
\<close>

definition publish_state :: trend_state where
  "publish_state =
     TrendState\<lparr>generated_posts :=
       [example_generated ''t3_a'', example_generated ''t3_b'', example_generated ''t3_c'']\<rparr>"

definition publish_world :: world where
  "publish_world =
     (example_world 3600)
       \<lparr>create_tweet := (\<lambda>n. if n = 1 then Inl (TweepyException ''403 Forbidden'')
                               else Inr (Some ''1001''))\<rparr>"

text \<open>
  A world for a whole run: the scraper returns three posts that score above the
  threshold, every completion call returns a text, the second call to \<open>create_tweet\<close>
  raises and the others return a tweet id.
\<close>

definition end_to_end_world :: world where
  "end_to_end_world =
     (example_world 3600)
       \<lparr>scrape_all := [(example_post 101)\<lparr>reddit_id := ''t3_a'', upvotes := 60000\<rparr>,
                       (example_post 101)\<lparr>reddit_id := ''t3_b'', upvotes := 30000\<rparr>,
                       (example_post 101)\<lparr>reddit_id := ''t3_c'', upvotes := 15000\<rparr>],
        completions := (\<lambda>n. Content ''A tweet''),
        create_tweet := (\<lambda>n. if n = 1 then Inl (TweepyException ''403 Forbidden'')
                               else Inr (Some ''1001''))\<rparr>"

text \<open>
  The same world after \<open>r\<close> readings of the clock, \<open>c\<close> completion calls, \<open>t\<close> calls to
  \<open>create_tweet\<close> and \<open>d\<close> database calls.
\<close>

definition end_to_end_world_at :: "nat \<Rightarrow> nat \<Rightarrow> nat \<Rightarrow> nat \<Rightarrow> world" where
  "end_to_end_world_at r c t d =
     end_to_end_world\<lparr>reads := r, completion_calls := c, create_tweet_calls := t,
                       database_calls := d\<rparr>"

text \<open>The three posts of that world as the scorer and the generator leave them.\<close>

definition end_to_end_scored :: "scored_post list" where
  "end_to_end_scored =
     [\<lparr>raw_post = (example_post 101)\<lparr>reddit_id := ''t3_a'', upvotes := 60000\<rparr>, score = 1260,
       meets_threshold = True, scored_at = 3600\<rparr>,
      \<lparr>raw_post = (example_post 101)\<lparr>reddit_id := ''t3_b'', upvotes := 30000\<rparr>, score = 630,
       meets_threshold = True, scored_at = 3600\<rparr>,
      \<lparr>raw_post = (example_post 101)\<lparr>reddit_id := ''t3_c'', upvotes := 15000\<rparr>, score = 315,
       meets_threshold = True, scored_at = 3600\<rparr>]"

definition end_to_end_generated :: "generated_post list" where
  "end_to_end_generated =
     map (\<lambda>sp. \<lparr>scored_post = sp, tweet_text = ''A tweet'', generated_at = 3600\<rparr>)
       end_to_end_scored"


section \<open>Properties of the scorer\<close>

lemma comment_engagement_eq:
  "comment_engagement post sc =
     Inr (sc * (if upvotes post > 0
                   \<and> real_of_int (num_comments post) / real_of_int (upvotes post) > 1 / 10
                then 11 / 10 else 1))"
  by (simp add: comment_engagement_def truediv_def)

lemma upvote_ratio_quality_eq:
  "upvote_ratio_quality post sc =
     sc * (if upvote_ratio post > 9 / 10 then 105 / 100
           else if upvote_ratio post < 7 / 10 then 95 / 100 else 1)"
  by (simp add: upvote_ratio_quality_def)

lemma time_adjustment_eq:
  "time_adjustment m sc =
     sc * (if m / 60 > 12 then max (1 / 2) (1 - (m / 60 - 12) / 24) else 1)"
  by (simp add: time_adjustment_def Let_def)

lemma apply_scoring_factors_eq:
  "apply_scoring_factors w post b =
     (Inr (time_adjustment ((clock w (reads w) - created_utc post) / 60)
            (subreddit_adjustment post (upvote_ratio_quality post
               (b * (if upvotes post > 0
                        \<and> real_of_int (num_comments post) / real_of_int (upvotes post) > 1 / 10
                     then 11 / 10 else 1))))),
      w\<lparr>reads := Suc (reads w)\<rparr>)"
  by (simp add: apply_scoring_factors_def comment_engagement_eq Let_def age_minutes_def utcnow_def)

text \<open>
  The scorer never raises: the first reading of the age is clamped to at least one minute
  before the division, and the comment ratio is only computed for a positive upvote count.
  It takes two readings of the clock, one for the velocity and one for the age penalty.
\<close>

lemma calculate_virality_score_eq:
  "calculate_virality_score w post =
     (Inr (time_adjustment ((clock w (Suc (reads w)) - created_utc post) / 60)
            (subreddit_adjustment post (upvote_ratio_quality post
               (real_of_int (upvotes post) / max ((clock w (reads w) - created_utc post) / 60) 1
                * (if upvotes post > 0
                      \<and> real_of_int (num_comments post) / real_of_int (upvotes post) > 1 / 10
                   then 11 / 10 else 1))))),
      w\<lparr>reads := Suc (Suc (reads w))\<rparr>)"
  by (simp add: calculate_virality_score_def age_minutes_def utcnow_def truediv_def
        apply_scoring_factors_eq Let_def max_def)

lemma virality_closed_form:
  "fst (calculate_virality_score w post) =
     Inr (real_of_int (upvotes post) / max ((clock w (reads w) - created_utc post) / 60) 1
          * (if upvotes post > 0
                \<and> real_of_int (num_comments post) / real_of_int (upvotes post) > 1 / 10
             then 11 / 10 else 1)
          * (if upvote_ratio post > 9 / 10 then 105 / 100
             else if upvote_ratio post < 7 / 10 then 95 / 100 else 1)
          * dict_get subreddit_multipliers (subreddit post) 1
          * (if (clock w (Suc (reads w)) - created_utc post) / 60 / 60 > 12
             then max (1 / 2) (1 - ((clock w (Suc (reads w)) - created_utc post) / 60 / 60 - 12) / 24)
             else 1))"
  unfolding calculate_virality_score_eq fst_conv time_adjustment_eq subreddit_adjustment_def
    upvote_ratio_quality_eq Let_def
  by simp

lemma multiplier_pos: "0 < dict_get subreddit_multipliers s 1"
  by (simp add: dict_get_def subreddit_multipliers_def)

lemmas example_scoring_defs =
  example_world_def example_post_def example_posts_def dict_get_def subreddit_multipliers_def

subsection \<open>Determinism\<close>

theorem score_changes_with_call_time:
  "fst (calculate_virality_score (example_world 3600) (example_post 100))
     \<noteq> fst (calculate_virality_score (example_world 7200) (example_post 100))"
  by (simp add: virality_closed_form example_scoring_defs)

text \<open>
  C2 (amended). \<open>calculate_virality_score\<close> is a function of the post and of the two wall
  clock readings it takes through \<open>RawPost.age_minutes\<close>: two calls on the same post that
  see the same two readings return the same score, whatever else differs in the world.
  The score does depend on when the call is made.
\<close>

theorem score_function_of_post_and_clock:
  assumes "clock w (reads w) = clock w' (reads w')"
    and "clock w (Suc (reads w)) = clock w' (Suc (reads w'))"
  shows "fst (calculate_virality_score w post) = fst (calculate_virality_score w' post)"
  using assms by (simp add: calculate_virality_score_eq)

theorem score_function_of_post_and_clock_witness:
  "clock (example_world 3600) (reads (example_world 3600))
     = clock ((example_world 3600)\<lparr>reads := 5, app_min_score := 1, twitter_client := False\<rparr>)
         (reads ((example_world 3600)\<lparr>reads := 5, app_min_score := 1, twitter_client := False\<rparr>))
   \<and> fst (calculate_virality_score (example_world 3600) (example_post 100))
     = fst (calculate_virality_score
              ((example_world 3600)\<lparr>reads := 5, app_min_score := 1, twitter_client := False\<rparr>)
              (example_post 100))"
  using score_function_of_post_and_clock
    [of "example_world 3600"
        "(example_world 3600)\<lparr>reads := 5, app_min_score := 1, twitter_client := False\<rparr>"
        "example_post 100"]
  by (simp add: example_world_def)

subsection \<open>The scoring formula\<close>

theorem scenario_with_100_comments_scores_21:
  "fst (calculate_virality_score (example_world 3600) (example_post 100)) = Inr 21
   \<and> (21::real) \<noteq> 1000 / 60 * (11 / 10) * (105 / 100) * (12 / 10)"
  by (simp add: virality_closed_form example_scoring_defs)

text \<open>
  C7 (amended). The score is the velocity \<open>upvotes / max(age_minutes, 1)\<close>, with the age
  of the first clock reading, multiplied in this order by the engagement bonus (1.10 when
  the post has upvotes and comments / upvotes exceeds 0.1), the quality adjustment (1.05
  above an upvote ratio of 0.9, 0.95 below 0.7), the subreddit multiplier (default 1.0)
  and the age decay, with the age of the second clock reading. The bonus needs a ratio
  strictly above 0.1: the post with 1000 upvotes, 60 minutes, 100 comments, ratio 0.95 and
  multiplier 1.2 has ratio exactly 0.1 and scores (1000/60) * 1.05 * 1.2 = 21.0; with 101
  comments it scores (1000/60) * 1.10 * 1.05 * 1.2 = 23.1.
\<close>

theorem virality_score_formula:
  "fst (calculate_virality_score w post) =
     Inr (real_of_int (upvotes post) / max ((clock w (reads w) - created_utc post) / 60) 1
          * (if upvotes post > 0
                \<and> real_of_int (num_comments post) / real_of_int (upvotes post) > 1 / 10
             then 11 / 10 else 1)
          * (if upvote_ratio post > 9 / 10 then 105 / 100
             else if upvote_ratio post < 7 / 10 then 95 / 100 else 1)
          * dict_get subreddit_multipliers (subreddit post) 1
          * (if (clock w (Suc (reads w)) - created_utc post) / 60 / 60 > 12
             then max (1 / 2) (1 - ((clock w (Suc (reads w)) - created_utc post) / 60 / 60 - 12) / 24)
             else 1))"
  by (rule virality_closed_form)

theorem virality_score_formula_witness:
  "fst (calculate_virality_score (example_world 3600) (example_post 101)) = Inr (231 / 10)"
  using virality_score_formula [of "example_world 3600" "example_post 101"]
  by (simp add: example_scoring_defs)

subsection \<open>Age decay\<close>

text \<open>
  C8. The age-decay factor as \<open>_apply_scoring_factors\<close> applies it. Take a clock reading
  at which the post is at most 12 hours old, and two readings at which it is \<open>h\<close> and
  \<open>h'\<close> hours old, with \<open>12 < h \<le> h'\<close>. The first call returns the score without decay;
  the other two return that score multiplied by \<open>max(0.5, 1 - (h - 12) / 24)\<close> and by
  \<open>max(0.5, 1 - (h' - 12) / 24)\<close>. The factor at \<open>h'\<close> is at most the factor at \<open>h\<close>, the
  factor is never below \<open>0.5\<close>, and from 36 hours on the score is exactly half the score
  without decay.
\<close>

theorem age_decay_in_apply_scoring_factors:
  assumes young: "(clock w0 (reads w0) - created_utc post) / 60 / 60 \<le> 12"
    and h: "(clock w (reads w) - created_utc post) / 60 / 60 = h"
    and h': "(clock w' (reads w') - created_utc post) / 60 / 60 = h'"
    and beyond: "12 < h" and later: "h \<le> h'"
  shows "\<exists>undecayed.
           fst (apply_scoring_factors w0 post b) = Inr undecayed
         \<and> fst (apply_scoring_factors w post b)
             = Inr (undecayed * max (1 / 2) (1 - (h - 12) / 24))
         \<and> fst (apply_scoring_factors w' post b)
             = Inr (undecayed * max (1 / 2) (1 - (h' - 12) / 24))
         \<and> max (1 / 2) (1 - (h' - 12) / 24) \<le> max (1 / 2) (1 - (h - 12) / 24)
         \<and> 1 / 2 \<le> max (1 / 2) (1 - (h - 12) / 24)
         \<and> (36 \<le> h \<longrightarrow> fst (apply_scoring_factors w post b) = Inr (undecayed * (1 / 2)))"
proof -
  let ?u = "subreddit_adjustment post (upvote_ratio_quality post
               (b * (if upvotes post > 0
                        \<and> real_of_int (num_comments post) / real_of_int (upvotes post) > 1 / 10
                     then 11 / 10 else 1)))"
  have a0: "fst (apply_scoring_factors w0 post b) = Inr ?u"
    using young by (simp add: apply_scoring_factors_eq time_adjustment_eq)
  have a1: "fst (apply_scoring_factors w post b) = Inr (?u * max (1 / 2) (1 - (h - 12) / 24))"
    using h beyond by (simp add: apply_scoring_factors_eq time_adjustment_eq)
  have a2: "fst (apply_scoring_factors w' post b) = Inr (?u * max (1 / 2) (1 - (h' - 12) / 24))"
    using h' beyond later by (simp add: apply_scoring_factors_eq time_adjustment_eq)
  have m: "max (1 / 2) (1 - (h' - 12) / 24) \<le> max (1 / 2) (1 - (h - 12) / 24)"
    using later by (simp add: max_def)
  have f: "1 / 2 \<le> max (1 / 2) (1 - (h - 12) / 24)" by simp
  have l: "36 \<le> h \<Longrightarrow> max (1 / 2) (1 - (h - 12) / 24) = 1 / 2"
    by (simp add: max_def)
  show ?thesis
    using a0 a1 a2 m f l by auto
qed

theorem age_decay_in_apply_scoring_factors_witness:
  "fst (apply_scoring_factors (example_world 3600) (example_post 101) 10) = Inr (1386 / 100)
   \<and> fst (apply_scoring_factors (example_world 64800) (example_post 101) 10)
       = Inr (1386 / 100 * (3 / 4))
   \<and> fst (apply_scoring_factors (example_world 144000) (example_post 101) 10)
       = Inr (1386 / 100 * (1 / 2))"
  using age_decay_in_apply_scoring_factors
    [of "example_world 3600" "example_post 101" "example_world 64800" 18
        "example_world 144000" 40 10]
  by (simp add: example_world_def example_post_def apply_scoring_factors_eq
      time_adjustment_eq upvote_ratio_quality_eq subreddit_adjustment_def dict_get_def
      subreddit_multipliers_def)

subsection \<open>Zero, sign and range of the score\<close>
















subsection \<open>Order of the scored posts\<close>

lemma score_post_succeeds:
  "\<exists>sp. fst (score_post w post) = Inr sp \<and> raw_post sp = post
        \<and> Inr (score sp) = fst (calculate_virality_score w post)"
  by (simp add: score_post_def calculate_virality_score_eq utcnow_def)

lemma score_loop_raw:
  "map raw_post (fst (score_loop w posts acc)) = map raw_post acc @ posts"
proof (induction posts arbitrary: w acc)
  case Nil
  then show ?case by simp
next
  case (Cons p ps)
  obtain sp where sp: "fst (score_post w p) = Inr sp" "raw_post sp = p"
    using score_post_succeeds [of w p] by blast
  then obtain w' where "score_post w p = (Inr sp, w')"
    by (cases "score_post w p") simp
  then show ?case using Cons.IH [of w' "acc @ [sp]"] sp by simp
qed

lemma sort_by_score_reverse_sorted:
  "sorted_wrt (\<lambda>a b. score a \<ge> score b) (sort_by_score_reverse ps)"
proof -
  have "sorted (map (\<lambda>p. - score p) (sort_key (\<lambda>p. - score p) ps))"
    by (rule sorted_sort_key)
  then show ?thesis
    by (simp add: sort_by_score_reverse_def sorted_map)
qed

lemma sort_by_score_reverse_mset:
  "mset (sort_by_score_reverse ps) = mset ps"
  by (simp add: sort_by_score_reverse_def)

text \<open>
  C10. \<open>score_posts\<close> returns the scored posts in non-increasing order of score, highest
  first; no post is lost, since scoring never raises.
\<close>

theorem score_posts_sorted_descending:
  "sorted_wrt (\<lambda>a b. score a \<ge> score b) (fst (score_posts w posts))
   \<and> mset (map raw_post (fst (score_posts w posts))) = mset posts"
proof -
  obtain scored w' where l: "score_loop w posts [] = (scored, w')"
    by (cases "score_loop w posts []")
  have "map raw_post scored = posts"
    using score_loop_raw [of w posts "[]"] l by simp
  then have "mset (map raw_post (sort_by_score_reverse scored)) = mset posts"
    by (metis mset_map sort_by_score_reverse_mset)
  then show ?thesis
    using l by (simp add: score_posts_def sort_by_score_reverse_sorted)
qed

theorem score_posts_sorted_descending_witness:
  "sorted_wrt (\<lambda>a b. score a \<ge> score b) (fst (score_posts (example_world 3600) example_posts))
   \<and> map (\<lambda>sp. (reddit_id (raw_post sp), score sp))
        (fst (score_posts (example_world 3600) example_posts))
     = [(''t3_high'', 126), (''t3_mid'', 1386 / 100), (''t3_low'', 1386 / 1000)]"
  using score_posts_sorted_descending [of "example_world 3600" example_posts]
  by (simp add: score_posts_def score_post_def calculate_virality_score_eq utcnow_def
      sort_by_score_reverse_def time_adjustment_eq subreddit_adjustment_def
      upvote_ratio_quality_eq example_scoring_defs)

section \<open>Properties of the Generate stage\<close>

text \<open>The text a completion gives when it is not cancelled.\<close>

lemma tweet_of_completion_cases:
  "tweet_of_completion (Content c) = Returned (Some (truncate_tweet (strip c)))"
  "tweet_of_completion (Raises e) = Returned None"
  "tweet_of_completion Cancelled = CancelledError"
  by (simp_all add: tweet_of_completion_def)

lemma generate_with_semaphore_eq:
  "generate_with_semaphore w p =
     (map_awaited (Pair p) (tweet_of_completion (completions w (completion_calls w))),
      w\<lparr>completion_calls := Suc (completion_calls w)\<rparr>)"
  by (cases "tweet_of_completion (completions w (completion_calls w))")
     (simp_all add: generate_with_semaphore_def generate_tweet_def)

lemma gather_generate_fst:
  "fst (gather_generate w posts) =
     map2 (\<lambda>p n. map_awaited (Pair p) (tweet_of_completion (completions w n)))
       posts [completion_calls w ..< completion_calls w + length posts]"
proof (induction posts arbitrary: w)
  case Nil
  then show ?case by simp
next
  case (Cons p ps)
  let ?w1 = "w\<lparr>completion_calls := Suc (completion_calls w)\<rparr>"
  have ih: "fst (gather_generate ?w1 ps) =
     map2 (\<lambda>p n. map_awaited (Pair p) (tweet_of_completion (completions w n)))
       ps [Suc (completion_calls w) ..< Suc (completion_calls w) + length ps]"
    using Cons.IH [of ?w1] by simp
  have up: "[completion_calls w ..< completion_calls w + length (p # ps)]
      = completion_calls w # [Suc (completion_calls w) ..< Suc (completion_calls w) + length ps]"
    by (simp add: upt_conv_Cons del: upt_Suc)
  show ?case
    unfolding up using ih by (simp add: generate_with_semaphore_eq split_beta del: upt_Suc)
qed

lemma process_results_step:
  "t \<noteq> [] \<Longrightarrow>
   process_results w (Returned (p, Some t) # rs) generated =
     process_results (w\<lparr>reads := Suc (reads w)\<rparr>) rs
       (generated @ [\<lparr>scored_post = p, tweet_text = t, generated_at = clock w (reads w)\<rparr>])"
  "process_results w (Returned (p, Some []) # rs) generated = process_results w rs generated"
  "process_results w (Returned (p, None) # rs) generated = process_results w rs generated"
  by (simp_all add: utcnow_def)

lemma process_results_cancelled:
  "CancelledError \<in> set rs \<Longrightarrow>
   \<exists>m. fst (process_results w rs generated) = Inl (TypeError m)"
proof (induction rs arbitrary: w generated)
  case Nil
  then show ?case by simp
next
  case (Cons r rs)
  show ?case
  proof (cases r)
    case CancelledError
    then show ?thesis by simp
  next
    case (Returned pt)
    then have in_rs: "CancelledError \<in> set rs" using Cons.prems by simp
    obtain p tx where pt: "pt = (p, tx)" by (cases pt)
    show ?thesis
    proof (cases "\<exists>t. tx = Some t \<and> t \<noteq> []")
      case True
      then obtain t where t: "tx = Some t" "t \<noteq> []" by blast
      show ?thesis
        unfolding Returned pt t(1) process_results_step(1) [OF t(2)]
        by (rule Cons.IH [OF in_rs])
    next
      case False
      then have "process_results w (r # rs) generated = process_results w rs generated"
        unfolding Returned pt by (cases tx) (simp_all add: process_results_step)
      then show ?thesis using Cons.IH [OF in_rs] by simp
    qed
  qed
qed

lemma process_results_returned:
  "\<exists>gs. fst (process_results w (map Returned rs) generated) = Inr gs
      \<and> set generated \<subseteq> set gs
      \<and> (\<forall>p t. (p, Some t) \<in> set rs \<and> t \<noteq> []
             \<longrightarrow> (\<exists>g \<in> set gs. scored_post g = p \<and> tweet_text g = t))
      \<and> (\<forall>g \<in> set gs. g \<in> set generated
             \<or> ((scored_post g, Some (tweet_text g)) \<in> set rs \<and> tweet_text g \<noteq> []))"
proof (induction rs arbitrary: w generated)
  case Nil
  then show ?case by simp
next
  case (Cons r rs)
  obtain p tx where r: "r = (p, tx)" by (cases r)
  show ?case
  proof (cases "\<exists>t. tx = Some t \<and> t \<noteq> []")
    case True
    then obtain t where t: "tx = Some t" "t \<noteq> []" by blast
    let ?g = "\<lparr>scored_post = p, tweet_text = t, generated_at = clock w (reads w)\<rparr>"
    obtain gs where gs: "fst (process_results (w\<lparr>reads := Suc (reads w)\<rparr>) (map Returned rs)
                               (generated @ [?g])) = Inr gs"
        "set (generated @ [?g]) \<subseteq> set gs"
        "\<forall>p t. (p, Some t) \<in> set rs \<and> t \<noteq> []
             \<longrightarrow> (\<exists>g \<in> set gs. scored_post g = p \<and> tweet_text g = t)"
        "\<forall>g \<in> set gs. g \<in> set (generated @ [?g])
             \<or> ((scored_post g, Some (tweet_text g)) \<in> set rs \<and> tweet_text g \<noteq> [])"
      using Cons.IH [of "w\<lparr>reads := Suc (reads w)\<rparr>" "generated @ [?g]"] by blast
    have eq: "process_results w (map Returned (r # rs)) generated
        = process_results (w\<lparr>reads := Suc (reads w)\<rparr>) (map Returned rs) (generated @ [?g])"
      unfolding r t(1) using process_results_step(1) [OF t(2)] by simp
    have g_in: "?g \<in> set gs" using gs(2) by simp
    have c1: "set generated \<subseteq> set gs" using gs(2) by simp
    have c2: "\<exists>g \<in> set gs. scored_post g = q \<and> tweet_text g = u"
      if "(q, Some u) \<in> set (r # rs)" "u \<noteq> []" for q u
    proof (cases "(q, Some u) = r")
      case True
      then have "q = p" "u = t" using r t(1) by simp_all
      then show ?thesis using g_in by (intro bexI [of _ ?g]) simp_all
    next
      case False
      then show ?thesis using that gs(3) by simp
    qed
    have c3: "g \<in> set generated
             \<or> ((scored_post g, Some (tweet_text g)) \<in> set (r # rs) \<and> tweet_text g \<noteq> [])"
      if "g \<in> set gs" for g
      using gs(4) that r t by auto
    show ?thesis
      unfolding eq using gs(1) c1 c2 c3 by blast
  next
    case False
    then have eq: "process_results w (map Returned (r # rs)) generated
        = process_results w (map Returned rs) generated"
      unfolding r by (cases tx) (simp_all add: process_results_step)
    obtain gs where gs: "fst (process_results w (map Returned rs) generated) = Inr gs"
        "set generated \<subseteq> set gs"
        "\<forall>p t. (p, Some t) \<in> set rs \<and> t \<noteq> []
             \<longrightarrow> (\<exists>g \<in> set gs. scored_post g = p \<and> tweet_text g = t)"
        "\<forall>g \<in> set gs. g \<in> set generated
             \<or> ((scored_post g, Some (tweet_text g)) \<in> set rs \<and> tweet_text g \<noteq> [])"
      using Cons.IH [of w generated] by blast
    have c2: "\<exists>g \<in> set gs. scored_post g = q \<and> tweet_text g = u"
      if "(q, Some u) \<in> set (r # rs)" "u \<noteq> []" for q u
    proof -
      have "(q, Some u) \<noteq> r" using False that(2) r by auto
      then show ?thesis using that gs(3) by simp
    qed
    show ?thesis
      unfolding eq using gs(1,2,4) c2 by auto
  qed
qed

lemma truncate_tweet_nonempty: "t \<noteq> [] \<Longrightarrow> truncate_tweet t \<noteq> []"
  by (simp add: truncate_tweet_def)

lemma gather_generate_not_cancelled:
  assumes "\<forall>k < length posts. completions w (completion_calls w + k) \<noteq> Cancelled"
  shows "fst (gather_generate w posts) =
     map Returned (zip posts
       (map (\<lambda>n. case completions w n of
                    Content c \<Rightarrow> Some (truncate_tweet (strip c)) | _ \<Rightarrow> None)
            [completion_calls w ..< completion_calls w + length posts]))"
proof -
  have "map_awaited (Pair p) (tweet_of_completion (completions w n))
        = Returned (p, case completions w n of
                         Content c \<Rightarrow> Some (truncate_tweet (strip c)) | _ \<Rightarrow> None)"
    if "(p, n) \<in> set (zip posts [completion_calls w ..< completion_calls w + length posts])"
    for p n
  proof -
    have "n \<in> set [completion_calls w ..< completion_calls w + length posts]"
      using that by (rule set_zip_rightD)
    then obtain k where "k < length posts" "n = completion_calls w + k"
      by (auto simp add: less_iff_Suc_add le_iff_add)
    then have "completions w n \<noteq> Cancelled" using assms by simp
    then show ?thesis
      by (cases "completions w n") (simp_all add: tweet_of_completion_def)
  qed
  then show ?thesis
    unfolding gather_generate_fst by (auto simp add: zip_map2 split_beta)
qed

lemma generation_exception_isolated:
  assumes i: "i < length posts" and j: "j < length posts"
    and d: "distinct posts"
    and nc: "\<forall>k < length posts. completions w (completion_calls w + k) \<noteq> Cancelled"
    and failed: "completions w (completion_calls w + i) = Raises e"
    and ok: "completions w (completion_calls w + j) = Content content"
    and nonempty: "strip content \<noteq> []"
  shows "\<exists>gs. fst (generate_tweets_batch w posts) = Inr gs
           \<and> (\<exists>g \<in> set gs. scored_post g = posts ! j
                            \<and> tweet_text g = truncate_tweet (strip content))
           \<and> (\<forall>g \<in> set gs. scored_post g \<noteq> posts ! i)"
proof -
  let ?outs = "map (\<lambda>n. case completions w n of
                    Content c \<Rightarrow> Some (truncate_tweet (strip c)) | _ \<Rightarrow> None)
                  [completion_calls w ..< completion_calls w + length posts]"
  let ?rs = "zip posts ?outs"
  obtain rs w1 where g: "gather_generate w posts = (rs, w1)"
    by (cases "gather_generate w posts")
  have rs: "rs = map Returned ?rs" using gather_generate_not_cancelled [OF nc] g by simp
  have batch: "fst (generate_tweets_batch w posts) = fst (process_results w1 (map Returned ?rs) [])"
    using g rs by (simp add: generate_tweets_batch_def)
  obtain gs where gs: "fst (process_results w1 (map Returned ?rs) []) = Inr gs"
      "\<forall>p t. (p, Some t) \<in> set ?rs \<and> t \<noteq> []
             \<longrightarrow> (\<exists>g \<in> set gs. scored_post g = p \<and> tweet_text g = t)"
      "\<forall>g \<in> set gs. g \<in> set []
             \<or> ((scored_post g, Some (tweet_text g)) \<in> set ?rs \<and> tweet_text g \<noteq> [])"
    using process_results_returned [of w1 ?rs "[]"] by blast
  have len: "length ?outs = length posts" by simp
  have outj: "?outs ! j = Some (truncate_tweet (strip content))"
    using j ok by simp
  have outi: "?outs ! i = None"
    using i failed by simp
  have "(posts ! j, Some (truncate_tweet (strip content))) \<in> set ?rs"
    using j outj len by (metis in_set_zip fst_conv snd_conv)
  then have first: "\<exists>g \<in> set gs. scored_post g = posts ! j
                            \<and> tweet_text g = truncate_tweet (strip content)"
    using gs(2) truncate_tweet_nonempty [OF nonempty] by blast
  have second: "scored_post g \<noteq> posts ! i" if "g \<in> set gs" for g
  proof
    assume eq: "scored_post g = posts ! i"
    have "(scored_post g, Some (tweet_text g)) \<in> set ?rs"
      using gs(3) that by simp
    then obtain k where k: "k < length posts" "posts ! k = scored_post g"
        "?outs ! k = Some (tweet_text g)"
      unfolding in_set_zip by auto
    have "k = i" using k(1,2) eq i d by (simp add: nth_eq_iff_index_eq)
    then show False using k(3) outi by simp
  qed
  show ?thesis using batch gs(1) first second by auto
qed

lemma exception_in_generation_keeps_sibling:
  "\<exists>gs. fst (generate_tweets_batch generate_world generate_posts) = Inr gs
      \<and> map (\<lambda>g. (reddit_id (raw_post (scored_post g)), tweet_text g)) gs = [(''t3_b'', ''A tweet'')]"
  by (simp add: generate_tweets_batch_def generate_world_def generate_posts_def
      generate_with_semaphore_def generate_tweet_def tweet_of_completion_def
      example_world_def example_scored_def example_post_def utcnow_def
      truncate_tweet_def strip_def is_space_def)


section \<open>Properties of the Publish stage\<close>

lemma post_tweet_result:
  assumes "twitter_client w" and "length (tweet_text gp) \<le> 280"
  shows "generated_post (fst (post_tweet w gp)) = gp"
    and "(\<exists>tid. create_tweet w (create_tweet_calls w) = Inr (Some tid)) \<Longrightarrow>
           status (fst (post_tweet w gp)) = POSTED
           \<and> post_result.error_message (fst (post_tweet w gp)) = None"
    and "\<not> (\<exists>tid. create_tweet w (create_tweet_calls w) = Inr (Some tid)) \<Longrightarrow>
           status (fst (post_tweet w gp)) = FAILED
           \<and> post_result.error_message (fst (post_tweet w gp)) \<noteq> None"
  using assms
  by (auto simp add: post_tweet_def Let_def PostResult_def mark_failed_def mark_posted_def
      utcnow_def database_call_swallowed_def split: sum.splits option.splits py_error.splits)

lemma post_tweet_world:
  assumes "twitter_client w" and "length (tweet_text gp) \<le> 280"
  shows "create_tweet_calls (snd (post_tweet w gp)) = Suc (create_tweet_calls w)"
    and "twitter_client (snd (post_tweet w gp))"
    and "create_tweet (snd (post_tweet w gp)) = create_tweet w"
    and "database (snd (post_tweet w gp)) = database w"
  using assms
  by (auto simp add: post_tweet_def Let_def PostResult_def mark_failed_def mark_posted_def
      utcnow_def database_call_swallowed_def split: sum.splits option.splits py_error.splits)

lemma post_tweets_batch_length:
  "length (fst (post_tweets_batch w gps)) = length gps"
  by (induction gps arbitrary: w) (simp_all add: split_beta)

lemma post_tweets_batch_nth:
  assumes "twitter_client w" and "\<forall>g \<in> set gps. length (tweet_text g) \<le> 280"
    and "i < length gps"
  shows "\<exists>wi. fst (post_tweets_batch w gps) ! i = fst (post_tweet wi (gps ! i))
            \<and> twitter_client wi \<and> create_tweet wi = create_tweet w
            \<and> create_tweet_calls wi = create_tweet_calls w + i"
  using assms
proof (induction gps arbitrary: w i)
  case Nil
  then show ?case by simp
next
  case (Cons g gps)
  have g: "length (tweet_text g) \<le> 280" using Cons.prems(2) by simp
  show ?case
  proof (cases i)
    case 0
    then show ?thesis using Cons.prems(1) by (auto simp add: split_beta)
  next
    case (Suc k)
    let ?w1 = "snd (post_tweet w g)"
    have "twitter_client ?w1" "\<forall>g \<in> set gps. length (tweet_text g) \<le> 280" "k < length gps"
      using post_tweet_world(2) [OF Cons.prems(1) g] Cons.prems(2,3) Suc by simp_all
    from Cons.IH [OF this] obtain wi where
      "fst (post_tweets_batch ?w1 gps) ! k = fst (post_tweet wi (gps ! k))"
      "twitter_client wi" "create_tweet wi = create_tweet ?w1"
      "create_tweet_calls wi = create_tweet_calls ?w1 + k"
      by blast
    then show ?thesis
      using Suc post_tweet_world(1,3) [OF Cons.prems(1) g] by (auto simp add: split_beta)
  qed
qed

lemma count_results_fields:
  "trend_state.error_message (count_results s rs) = trend_state.error_message s
   \<and> results (count_results s rs) = results s
   \<and> completed_at_writes (count_results s rs) = completed_at_writes s
   \<and> workflow_id (count_results s rs) = workflow_id s"
  by (induction rs arbitrary: s) simp_all

subsection \<open>A whole run with a failing publish call\<close>

lemma end_to_end_world_at_0: "end_to_end_world_at 0 0 0 0 = end_to_end_world"
  by (simp add: end_to_end_world_at_def end_to_end_world_def example_world_def)

lemma end_to_end_score:
  "score_posts (end_to_end_world_at r c t d) (scrape_all end_to_end_world)
     = (end_to_end_scored, end_to_end_world_at (r + 9) c t d)"
  by (simp add: score_posts_def score_post_def calculate_virality_score_eq utcnow_def
      sort_by_score_reverse_def time_adjustment_eq subreddit_adjustment_def
      upvote_ratio_quality_eq example_scoring_defs end_to_end_world_def end_to_end_world_at_def
      end_to_end_scored_def)

lemma end_to_end_database:
  "database_calls_swallowed (end_to_end_world_at r c t d) end_to_end_scored
     = end_to_end_world_at r c t (d + 3)"
  "database_calls_swallowed (end_to_end_world_at r c t d) end_to_end_generated
     = end_to_end_world_at r c t (d + 3)"
  by (simp_all add: end_to_end_world_at_def end_to_end_scored_def end_to_end_generated_def
      database_call_swallowed_def)

lemma end_to_end_generate:
  "generate_tweets_batch (end_to_end_world_at r c t d) end_to_end_scored
     = (Inr end_to_end_generated, end_to_end_world_at (r + 3) (c + 3) t d)"
  by (simp add: generate_tweets_batch_def generate_with_semaphore_def generate_tweet_def
      tweet_of_completion_def truncate_tweet_def strip_def is_space_def utcnow_def
      end_to_end_world_at_def end_to_end_world_def example_world_def end_to_end_generated_def
      end_to_end_scored_def)

lemma end_to_end_post:
  "map (\<lambda>r. (reddit_id (raw_post (scored_post (generated_post r))), status r,
                post_result.error_message r))
       (fst (post_tweets_batch (end_to_end_world_at r c 0 d) end_to_end_generated))
     = [(''t3_a'', POSTED, None),
              (''t3_b'', FAILED, Some ''Twitter API error: 403 Forbidden''),
              (''t3_c'', POSTED, None)]"
  by (simp add: post_tweet_def Let_def PostResult_def mark_failed_def mark_posted_def
      utcnow_def database_call_swallowed_def end_to_end_world_at_def end_to_end_world_def
      example_world_def end_to_end_generated_def end_to_end_scored_def)

lemma end_to_end_lists:
  "scrape_all (end_to_end_world_at r c t d) = scrape_all end_to_end_world"
  "scrape_all end_to_end_world \<noteq> []"
  "filter meets_threshold end_to_end_scored = end_to_end_scored"
  "end_to_end_scored \<noteq> []" "end_to_end_generated \<noteq> []"
  by (simp_all add: end_to_end_world_at_def end_to_end_world_def end_to_end_scored_def
      end_to_end_generated_def)

lemma end_to_end_graph:
  assumes "raw_posts s = []" "scored_posts s = []" "generated_posts s = []" "results s = []"
    and "trend_state.error_message s = None"
  shows "map (\<lambda>r. (reddit_id (raw_post (scored_post (generated_post r))), status r,
                post_result.error_message r))
           (results (fst (run_graph (end_to_end_world_at r c 0 d) s)))
           = [(''t3_a'', POSTED, None),
              (''t3_b'', FAILED, Some ''Twitter API error: 403 Forbidden''),
              (''t3_c'', POSTED, None)]
         \<and> trend_state.error_message (fst (run_graph (end_to_end_world_at r c 0 d) s)) = None"
proof -
  let ?W = "end_to_end_world_at r c 0 d"
  define s1 where "s1 = add_raw_posts (update_step s ''scraping'') (scrape_all end_to_end_world)"
  define s2 where "s2 = add_scored_posts (update_step s1 ''scoring'') end_to_end_scored"
  define s3 where "s3 = add_generated_posts (update_step s2 ''generating'') end_to_end_generated"
  have n1: "scrape_sources_node ?W s = (s1, ?W)"
    by (simp add: scrape_sources_node_def Let_def s1_def end_to_end_lists)
  have f1: "raw_posts s1 = scrape_all end_to_end_world" "scored_posts s1 = []"
    "generated_posts s1 = []" "results s1 = []" "trend_state.error_message s1 = None"
    using assms by (simp_all add: s1_def add_raw_posts_def update_step_def)
  have c1: "should_continue_to_scoring s1 \<noteq> END"
    by (simp add: should_continue_to_scoring_def f1 truthy_def end_to_end_lists END_def)
  have n2: "score_virality_node ?W s1 = (s2, end_to_end_world_at (r + 9) c 0 (d + 3))"
    by (simp add: score_virality_node_def Let_def update_step_def f1 end_to_end_lists
        end_to_end_score end_to_end_database s2_def)
  have f2: "scored_posts s2 = end_to_end_scored" "generated_posts s2 = []" "results s2 = []"
    "trend_state.error_message s2 = None"
    using f1 by (simp_all add: s2_def add_scored_posts_def update_step_def)
  have c2: "should_continue_to_generation s2 \<noteq> END"
    by (simp add: should_continue_to_generation_def state_posts_above_threshold_def f2 truthy_def
        end_to_end_lists END_def)
  have n3: "generate_content_node (end_to_end_world_at (r + 9) c 0 (d + 3)) s2
              = (s3, end_to_end_world_at (r + 12) (c + 3) 0 (d + 6))"
    using end_to_end_generate [of "r + 9" c 0 "d + 3"]
      end_to_end_database(2) [of "r + 9 + 3" "c + 3" 0 "d + 3"]
    by (simp add: generate_content_node_def Let_def update_step_def
        state_posts_above_threshold_def f2 end_to_end_lists s3_def add.commute)
  have f3: "generated_posts s3 = end_to_end_generated" "results s3 = []"
    "trend_state.error_message s3 = None"
    using f2 by (simp_all add: s3_def add_generated_posts_def update_step_def)
  have c3: "should_continue_to_posting s3 \<noteq> END"
    by (simp add: should_continue_to_posting_def f3 truthy_def end_to_end_lists END_def)
  have run: "run_graph ?W s = post_content_node (end_to_end_world_at (r + 12) (c + 3) 0 (d + 6)) s3"
    by (simp add: run_graph_def n1 c1 n2 c2 n3 c3)
  have "results (fst (post_content_node (end_to_end_world_at (r + 12) (c + 3) 0 (d + 6)) s3))
          = fst (post_tweets_batch (end_to_end_world_at (r + 12) (c + 3) 0 (d + 6))
                   end_to_end_generated)"
    and "trend_state.error_message
           (fst (post_content_node (end_to_end_world_at (r + 12) (c + 3) 0 (d + 6)) s3)) = None"
    by (simp_all add: post_content_node_def Let_def update_step_def f3 end_to_end_lists
        add_results_def count_results_fields split_beta)
  then show ?thesis
    by (simp only: run end_to_end_post simp_thms)
qed

section \<open>Properties of a run\<close>

lemma fail_workflow_terminal:
  "completed_at_writes (fst (fail_workflow w s m)) = Suc (completed_at_writes s)"
  "completed_at (fst (fail_workflow w s m))
     = Some (clock (snd (fail_workflow w s m)) (reads (snd (fail_workflow w s m)) - 1))"
  "current_step (fst (fail_workflow w s m)) = ''failed''"
  "trend_state.error_message (fst (fail_workflow w s m)) = Some m"
  by (simp_all add: fail_workflow_def utcnow_def)

lemma run_workflow_except_terminal:
  "completed_at_writes (fst (run_workflow_except w s e)) = Suc (completed_at_writes s)
   \<and> completed_at (fst (run_workflow_except w s e))
       = Some (clock (snd (run_workflow_except w s e)) (reads (snd (run_workflow_except w s e)) - 1))
   \<and> current_step (fst (run_workflow_except w s e)) = ''failed''
   \<and> trend_state.error_message (fst (run_workflow_except w s e))
       = Some (''Workflow '' @ workflow_id s @ '' failed: '' @ str_error e)"
  by (simp add: run_workflow_except_def Let_def fail_workflow_terminal)

text \<open>
  The object the graph returns is a dictionary, so the first attribute read after the
  graph raises, and the end of the \<open>try\<close> block is the handler.
\<close>

lemma run_workflow_finish_raises:
  "run_workflow_finish w state obj
     = run_workflow_except w state (AttributeError ''dict object has no attribute total_scraped'')"
  by (cases obj) (simp add: run_workflow_finish_def getattr_def)

lemma state_after_graph_fields:
  "completed_at_writes (state_after_graph state obj) = completed_at_writes state"
  "workflow_id (state_after_graph state obj) = workflow_id state"
  "total_scraped (state_after_graph state obj) = total_scraped state"
  "total_scored (state_after_graph state obj) = total_scored state"
  "total_generated (state_after_graph state obj) = total_generated state"
  "total_posted (state_after_graph state obj) = total_posted state"
  "total_failed (state_after_graph state obj) = total_failed state"
  by (cases obj; simp add: state_after_graph_def)+

lemma run_workflow_begin_fields:
  "completed_at_writes (fst (run_workflow_begin w ms subs)) = 0"
  "raw_posts (fst (run_workflow_begin w ms subs)) = []"
  "scored_posts (fst (run_workflow_begin w ms subs)) = []"
  "generated_posts (fst (run_workflow_begin w ms subs)) = []"
  "results (fst (run_workflow_begin w ms subs)) = []"
  "trend_state.error_message (fst (run_workflow_begin w ms subs)) = None"
  "workflow_id (fst (run_workflow_begin w ms subs))
     = ''trend-'' @ take 8 (uuid_hex w) @ ''-'' @ str_int \<lfloor>clock w (reads w)\<rfloor>"
  "snd (run_workflow_begin w ms subs) = w\<lparr>reads := Suc (Suc (reads w))\<rparr>"
  by (simp_all add: run_workflow_begin_def utcnow_def start_workflow_def TrendState_def Let_def
      split: option.splits)



text \<open>Inside the graph only the handler of the generation node completes a state.\<close>

lemma node_writes:
  "completed_at_writes (fst (scrape_sources_node w s)) = completed_at_writes s"
  "completed_at_writes (fst (score_virality_node w s)) = completed_at_writes s"
  "completed_at_writes (fst (post_content_node w s)) = completed_at_writes s"
  by (simp_all add: scrape_sources_node_def score_virality_node_def post_content_node_def
      Let_def update_step_def add_raw_posts_def add_scored_posts_def add_results_def
      count_results_fields split_beta)

lemma generate_content_node_writes:
  "completed_at_writes (fst (generate_content_node w s)) = completed_at_writes s
   \<or> completed_at_writes (fst (generate_content_node w s)) = Suc (completed_at_writes s)
     \<and> should_continue_to_posting (fst (generate_content_node w s)) = END"
  by (simp add: generate_content_node_def Let_def update_step_def add_generated_posts_def
      fail_workflow_def utcnow_def should_continue_to_posting_def truthy_def
      split: prod.splits sum.splits)

lemma run_graph_writes:
  "completed_at_writes (fst (run_graph w s)) \<le> Suc (completed_at_writes s)"
proof -
  obtain s1 w1 where n1: "scrape_sources_node w s = (s1, w1)"
    by (cases "scrape_sources_node w s")
  obtain s2 w2 where n2: "score_virality_node w1 s1 = (s2, w2)"
    by (cases "score_virality_node w1 s1")
  obtain s3 w3 where n3: "generate_content_node w2 s2 = (s3, w3)"
    by (cases "generate_content_node w2 s2")
  have 1: "completed_at_writes s1 = completed_at_writes s"
    using node_writes(1) [of w s] n1 by simp
  have 2: "completed_at_writes s2 = completed_at_writes s1"
    using node_writes(2) [of w1 s1] n2 by simp
  have 3: "completed_at_writes s3 = completed_at_writes s2
           \<or> completed_at_writes s3 = Suc (completed_at_writes s2)
             \<and> should_continue_to_posting s3 = END"
    using generate_content_node_writes [of w2 s2] n3 by simp
  have 4: "completed_at_writes (fst (post_content_node w3 s3)) = completed_at_writes s3"
    by (rule node_writes(3))
  show ?thesis
    using 1 2 3 4 by (auto simp add: run_graph_def n1 n2 n3)
qed

subsection \<open>Assignments of \<open>completed_at\<close>\<close>


subsection \<open>An empty collection\<close>

lemma run_graph_empty:
  assumes "scrape_all w = []" and "raw_posts s = []"
  shows "run_graph w s = (s\<lparr>current_step := ''scraping''\<rparr>, w)"
  using assms
  by (simp add: run_graph_def scrape_sources_node_def Let_def update_step_def add_raw_posts_def
      should_continue_to_scoring_def)

lemma str_int_3600: "str_int 3600 = ''3600''"
proof -
  have 1: "str_nat 3 = ''3''" by (subst str_nat.simps) simp
  have 2: "str_nat 36 = ''36''" by (subst str_nat.simps) (simp add: 1)
  have 3: "str_nat 360 = ''360''" by (subst str_nat.simps) (simp add: 2)
  have "str_nat 3600 = ''3600''" by (subst str_nat.simps) (simp add: 3)
  then show ?thesis by (simp add: str_int_def)
qed

lemma example_workflow_id:
  "workflow_id (fst (run_workflow_begin (example_world 3600) ms subs)) = ''trend-01234567-3600''"
  "workflow_id (fst (run_workflow_begin end_to_end_world ms subs)) = ''trend-01234567-3600''"
  by (simp_all add: run_workflow_begin_fields example_world_def end_to_end_world_def
      str_int_3600)

text \<open>A run whose workflow record can be created ends in the handler after the graph.\<close>

lemma run_workflow_after_graph:
  assumes "database w (database_calls w) = None"
  shows "\<exists>d w'. run_workflow_graph (snd (run_workflow_begin w ms subs))
                  (fst (run_workflow_begin w ms subs)) = (Inr (Dict d), w')
           \<and> (d, w') = run_graph
                 (w\<lparr>reads := Suc (Suc (reads w)), database_calls := Suc (database_calls w)\<rparr>)
                 (fst (run_workflow_begin w ms subs))
           \<and> run_workflow w ms subs
               = run_workflow_except w'
                   (state_after_graph (fst (run_workflow_begin w ms subs)) (Dict d))
                   (AttributeError ''dict object has no attribute total_scraped'')"
proof -
  let ?w1 = "w\<lparr>reads := Suc (Suc (reads w))\<rparr>"
  let ?w2 = "w\<lparr>reads := Suc (Suc (reads w)), database_calls := Suc (database_calls w)\<rparr>"
  obtain s0 w1 where b: "run_workflow_begin w ms subs = (s0, w1)"
    by (cases "run_workflow_begin w ms subs")
  have w1: "w1 = ?w1"
    using run_workflow_begin_fields(8) [of w ms subs] b by simp
  obtain d w' where g: "run_graph ?w2 s0 = (d, w')"
    by (cases "run_graph ?w2 s0")
  have rg: "run_workflow_graph w1 s0 = (Inr (Dict d), w')"
    using assms by (simp add: w1 run_workflow_graph_def database_call_def ainvoke_def g)
  have "run_workflow w ms subs
          = run_workflow_except w' (state_after_graph s0 (Dict d))
              (AttributeError ''dict object has no attribute total_scraped'')"
    by (simp add: run_workflow_def b rg run_workflow_finish_raises)
  then show ?thesis by (simp add: b rg g)
qed

text \<open>
  C4. The run in which the scraper returns no post (the example world, clock at 3600):
  the graph returns after the scraping node without an error, nothing is scored, generated
  or published and neither the completion API nor \<open>create_tweet\<close> is called, but the run
  ends in step \<open>failed\<close> with the error of the attribute read, not in \<open>completed\<close>.
\<close>

theorem empty_collection_run_ends_failed:
  "fst (run_workflow_graph (snd (run_workflow_begin (example_world 3600) None None))
          (fst (run_workflow_begin (example_world 3600) None None)))
     = Inr (Dict ((fst (run_workflow_begin (example_world 3600) None None))
                    \<lparr>current_step := ''scraping''\<rparr>))
   \<and> trend_state.error_message (fst (run_workflow_begin (example_world 3600) None None)) = None
   \<and> current_step (fst (run_workflow (example_world 3600) None None)) = ''failed''
   \<and> trend_state.error_message (fst (run_workflow (example_world 3600) None None))
       = Some ''Workflow trend-01234567-3600 failed: dict object has no attribute total_scraped''
   \<and> total_scored (fst (run_workflow (example_world 3600) None None)) = 0
   \<and> total_generated (fst (run_workflow (example_world 3600) None None)) = 0
   \<and> total_posted (fst (run_workflow (example_world 3600) None None)) = 0
   \<and> scored_posts (fst (run_workflow (example_world 3600) None None)) = []
   \<and> generated_posts (fst (run_workflow (example_world 3600) None None)) = []
   \<and> results (fst (run_workflow (example_world 3600) None None)) = []
   \<and> completion_calls (snd (run_workflow (example_world 3600) None None)) = 0
   \<and> create_tweet_calls (snd (run_workflow (example_world 3600) None None)) = 0"
proof -
  let ?w = "example_world 3600"
  let ?s = "fst (run_workflow_begin ?w None None)"
  let ?w1 = "snd (run_workflow_begin ?w None None)"
  let ?w2 = "?w\<lparr>reads := Suc (Suc (reads ?w)), database_calls := Suc (database_calls ?w)\<rparr>"
  have g2: "run_graph ?w2 ?s = (?s\<lparr>current_step := ''scraping''\<rparr>, ?w2)"
    by (rule run_graph_empty) (simp_all add: run_workflow_begin_fields example_world_def)
  have "database ?w (database_calls ?w) = None"
    by (simp add: example_world_def)
  from run_workflow_after_graph [OF this, of None None]
  have g1: "fst (run_workflow_graph ?w1 ?s) = Inr (Dict (?s\<lparr>current_step := ''scraping''\<rparr>))"
    and run: "run_workflow ?w None None
               = run_workflow_except ?w2
                   (state_after_graph ?s (Dict (?s\<lparr>current_step := ''scraping''\<rparr>)))
                   (AttributeError ''dict object has no attribute total_scraped'')"
    unfolding g2 by auto
  have st: "state_after_graph ?s (Dict (?s\<lparr>current_step := ''scraping''\<rparr>)) = ?s"
    by (simp add: state_after_graph_def)
  have fields: "total_scored ?s = 0" "total_generated ?s = 0" "total_posted ?s = 0"
    by (simp_all add: run_workflow_begin_def utcnow_def start_workflow_def TrendState_def Let_def)
  have calls: "completion_calls ?w2 = 0" "create_tweet_calls ?w2 = 0"
    by (simp_all add: example_world_def)
  have "snd (run_workflow_except ?w2 ?s e) = ?w2\<lparr>database_calls := Suc (database_calls ?w2), reads := Suc (reads ?w2)\<rparr>" for e
    by (simp add: run_workflow_except_def fail_workflow_def utcnow_def database_call_swallowed_def)
  then have calls': "completion_calls (snd (run_workflow_except ?w2 ?s e)) = 0"
    "create_tweet_calls (snd (run_workflow_except ?w2 ?s e)) = 0" for e
    using calls by simp_all
  have keep: "total_scored (fst (run_workflow_except ?w2 ?s e)) = total_scored ?s"
    "total_generated (fst (run_workflow_except ?w2 ?s e)) = total_generated ?s"
    "total_posted (fst (run_workflow_except ?w2 ?s e)) = total_posted ?s"
    "scored_posts (fst (run_workflow_except ?w2 ?s e)) = scored_posts ?s"
    "generated_posts (fst (run_workflow_except ?w2 ?s e)) = generated_posts ?s"
    "results (fst (run_workflow_except ?w2 ?s e)) = results ?s" for e
    by (simp_all add: run_workflow_except_def fail_workflow_def utcnow_def)
  show ?thesis
    unfolding run st
    using run_workflow_except_terminal [of ?w2 ?s "AttributeError ''dict object has no attribute total_scraped''"]
    by (simp add: g1 keep calls' fields run_workflow_begin_fields(2-6) example_workflow_id)
qed

subsection \<open>The run of the publish scenario\<close>

text \<open>
  C5. The run in the world whose scraper returns three posts above the threshold and
  whose second \<open>create_tweet\<close> call raises: the graph returns the results \<open>POSTED\<close>,
  \<open>FAILED\<close> with the error of the call, \<open>POSTED\<close> in the order of the posts and no error
  of the workflow, and the run ends in step \<open>failed\<close> with the error of the attribute
  read, not in \<open>completed\<close>.
\<close>

theorem publish_failure_run_ends_failed:
  "(\<exists>d w'. run_workflow_graph (snd (run_workflow_begin end_to_end_world None None))
              (fst (run_workflow_begin end_to_end_world None None)) = (Inr (Dict d), w')
      \<and> map (\<lambda>r. (reddit_id (raw_post (scored_post (generated_post r))), status r,
                post_result.error_message r)) (results d)
          = [(''t3_a'', POSTED, None),
              (''t3_b'', FAILED, Some ''Twitter API error: 403 Forbidden''),
              (''t3_c'', POSTED, None)]
      \<and> trend_state.error_message d = None)
   \<and> current_step (fst (run_workflow end_to_end_world None None)) = ''failed''
   \<and> trend_state.error_message (fst (run_workflow end_to_end_world None None))
       = Some ''Workflow trend-01234567-3600 failed: dict object has no attribute total_scraped''"
proof -
  let ?s = "fst (run_workflow_begin end_to_end_world None None)"
  have db: "database end_to_end_world (database_calls end_to_end_world) = None"
    by (simp add: end_to_end_world_def example_world_def)
  have w2: "end_to_end_world\<lparr>reads := Suc (Suc (reads end_to_end_world)),
              database_calls := Suc (database_calls end_to_end_world)\<rparr>
              = end_to_end_world_at 2 0 0 1"
    by (simp add: end_to_end_world_at_def end_to_end_world_def example_world_def)
  from run_workflow_after_graph [OF db, of None None] obtain d w' where
    rg: "run_workflow_graph (snd (run_workflow_begin end_to_end_world None None)) ?s
           = (Inr (Dict d), w')"
    and g: "(d, w') = run_graph (end_to_end_world_at 2 0 0 1) ?s"
    and run: "run_workflow end_to_end_world None None
                = run_workflow_except w' (state_after_graph ?s (Dict d))
                    (AttributeError ''dict object has no attribute total_scraped'')"
    unfolding w2 by blast
  have d: "d = fst (run_graph (end_to_end_world_at 2 0 0 1) ?s)"
    using g by (simp add: prod_eq_iff)
  have "map (\<lambda>r. (reddit_id (raw_post (scored_post (generated_post r))), status r,
                post_result.error_message r)) (results d)
          = [(''t3_a'', POSTED, None),
              (''t3_b'', FAILED, Some ''Twitter API error: 403 Forbidden''),
              (''t3_c'', POSTED, None)]
        \<and> trend_state.error_message d = None"
    unfolding d by (rule end_to_end_graph) (simp_all add: run_workflow_begin_fields)
  then have first: "\<exists>d w'. run_workflow_graph (snd (run_workflow_begin end_to_end_world None None)) ?s
                        = (Inr (Dict d), w')
      \<and> map (\<lambda>r. (reddit_id (raw_post (scored_post (generated_post r))), status r,
                post_result.error_message r)) (results d)
          = [(''t3_a'', POSTED, None),
              (''t3_b'', FAILED, Some ''Twitter API error: 403 Forbidden''),
              (''t3_c'', POSTED, None)]
      \<and> trend_state.error_message d = None"
    by (intro exI [of _ d] exI [of _ w']) (simp add: rg)
  have second: "current_step (fst (run_workflow end_to_end_world None None)) = ''failed''
     \<and> trend_state.error_message (fst (run_workflow end_to_end_world None None))
       = Some ''Workflow trend-01234567-3600 failed: dict object has no attribute total_scraped''"
    unfolding run
    using run_workflow_except_terminal [of w' "state_after_graph ?s (Dict d)"
        "AttributeError ''dict object has no attribute total_scraped''"]
    by (simp add: state_after_graph_fields example_workflow_id)
  from first second show ?thesis by (rule conjI)
qed

section \<open>Properties of the job descriptors\<close>

text \<open>
  Every job is registered with \<open>max_instances = 1\<close> and \<open>coalesce = True\<close>, and
  \<open>run_job_now\<close> changes nothing but the next run time of the job it names.
\<close>

lemma add_jobs_single_instance:
  "\<forall>j \<in> set (add_jobs interval_minutes). max_instances j = 1 \<and> coalesce j"
  by (simp add: add_jobs_def)

lemma add_jobs_ids:
  "map job_id (add_jobs interval_minutes)
     = [''workflow_job'', ''metrics_job'', ''snapshot_job'', ''cleanup_job'']"
  by (simp add: add_jobs_def)

lemma modify_next_run_time_keeps:
  "map (\<lambda>j. (func j, trigger j, job_id j, job_name j, max_instances j, coalesce j,
              misfire_grace_time j)) (modify_next_run_time jobs jid now)
     = map (\<lambda>j. (func j, trigger j, job_id j, job_name j, max_instances j, coalesce j,
                 misfire_grace_time j)) jobs"
  by (induction jobs) simp_all

end
